theory Spec2Isabelle
  imports Complex_Main
begin

section \<open>The portfolio server (src/server.js)\<close>

text \<open>
  The server keeps an array of portfolio records in one JSON file and serves three API
  routes over it. Each handler is modelled as one uninterrupted run: the interleaving of
  concurrent requests at the \<^verbatim>\<open>await\<close> points is outside this development.
\<close>

subsection \<open>JavaScript values\<close>

text \<open>
  The values the handlers touch are those \<^verbatim>\<open>JSON.parse\<close> returns. A number is a double in
  JavaScript: the finite ones are reals (the two zeros are one number here, as they are for
  \<^verbatim>\<open>===\<close>), and \<open>JInfinity\<close> is \<^verbatim>\<open>Infinity\<close> (True) or \<^verbatim>\<open>-Infinity\<close> (False), which
  \<^verbatim>\<open>JSON.parse\<close> returns for a literal beyond the range of doubles, such as \<^verbatim>\<open>1e400\<close>. The
  handlers compute no number but an array length. An object is the list of its own
  properties in the order in which the engine enumerates them.
\<close>

datatype json =
    JNull
  | JBool bool
  | JNum real
  | JInfinity bool
  | JStr string
  | JArr "json list"
  | JObj "(string \<times> json) list"

text \<open>An \<^verbatim>\<open>Error\<close> object, of which the handlers read the \<^verbatim>\<open>message\<close> only.\<close>

datatype js_error = JsError string

fun error_message :: "js_error \<Rightarrow> string" where
  "error_message (JsError m) = m"

text \<open>The \<^verbatim>\<open>TypeError\<close>s of the engine; the wording is V8's and nothing below depends on it.\<close>

definition not_a_function :: "string \<Rightarrow> js_error" where
  "not_a_function what = JsError (what @ '' is not a function'')"

definition null_property :: "string \<Rightarrow> js_error" where
  "null_property p =
     JsError (''Cannot read properties of null (reading '' @ [CHR 0x27] @ p @ [CHR 0x27] @ '')'')"

definition ENOENT :: js_error where
  "ENOENT = JsError ''ENOENT: no such file or directory''"

subsection \<open>Object literals and the spread\<close>

text \<open>Decimal digits.\<close>

definition is_digit :: "char \<Rightarrow> bool" where
  "is_digit c = (c \<in> set ''0123456789'')"

definition digit_value :: "char \<Rightarrow> nat" where
  "digit_value c = of_char c - 48"

definition decimal :: "string \<Rightarrow> nat" where
  "decimal s = foldl (\<lambda>n c. 10 * n + digit_value c) 0 s"

text \<open>
  An array index is a key that is the canonical decimal of a number below \<open>2\<^sup>3\<^sup>2 - 1\<close>. The
  engine enumerates the array indices of an object first, in ascending order, and then
  its other keys in the order of their creation.
\<close>

definition array_index :: "string \<Rightarrow> nat option" where
  "array_index k =
     (if k \<noteq> [] \<and> list_all is_digit k
      then (if (k = ''0'' \<or> hd k \<noteq> CHR ''0'') \<and> decimal k < 4294967295
            then Some (decimal k) else None)
      else None)"

text \<open>An existing key keeps its place and takes the new value.\<close>

fun replace_prop :: "string \<Rightarrow> json \<Rightarrow> (string \<times> json) list \<Rightarrow> (string \<times> json) list" where
  "replace_prop k v [] = []"
| "replace_prop k v ((k', v') # ps) =
     (if k' = k then (k, v) # ps else (k', v') # replace_prop k v ps)"

text \<open>A new array index goes before the first key that is a greater index or no index.\<close>

fun insert_index :: "nat \<Rightarrow> string \<Rightarrow> json \<Rightarrow> (string \<times> json) list \<Rightarrow> (string \<times> json) list" where
  "insert_index i k v [] = [(k, v)]"
| "insert_index i k v ((k', v') # ps) =
     (case array_index k' of
        None \<Rightarrow> (k, v) # (k', v') # ps
      | Some j \<Rightarrow> if j < i then (k', v') # insert_index i k v ps else (k, v) # (k', v') # ps)"

text \<open>Defining a property.\<close>

definition set_prop :: "string \<Rightarrow> json \<Rightarrow> (string \<times> json) list \<Rightarrow> (string \<times> json) list" where
  "set_prop k v ps =
     (if k \<in> set (map fst ps) then replace_prop k v ps
      else (case array_index k of
              None \<Rightarrow> ps @ [(k, v)]
            | Some i \<Rightarrow> insert_index i k v ps))"

fun string_of_nat :: "nat \<Rightarrow> string" where
  "string_of_nat n =
     (if n < 10 then [''0123456789'' ! n]
      else string_of_nat (n div 10) @ [''0123456789'' ! (n mod 10)])"

text \<open>
  The own enumerable properties a spread copies: the fields of an object, the indexed
  elements of an array, the indexed characters of a string, and nothing for the other
  primitives.
\<close>

fun own_props :: "json \<Rightarrow> (string \<times> json) list" where
  "own_props (JObj ps) = ps"
| "own_props (JArr xs) = zip (map string_of_nat [0..<length xs]) xs"
| "own_props (JStr s) = zip (map string_of_nat [0..<length s]) (map (\<lambda>c. JStr [c]) s)"
| "own_props _ = []"

datatype member = Prop string json | Spread json

fun add_member :: "(string \<times> json) list \<Rightarrow> member \<Rightarrow> (string \<times> json) list" where
  "add_member ps (Prop k v) = set_prop k v ps"
| "add_member ps (Spread src) = foldl (\<lambda>acc (k, v). set_prop k v acc) ps (own_props src)"

text \<open>An object literal evaluates its members from left to right.\<close>

definition object_literal :: "member list \<Rightarrow> json" where
  "object_literal ms = JObj (foldl add_member [] ms)"

text \<open>
  The two property reads of the handlers, \<^verbatim>\<open>portfolio.id\<close> and \<^verbatim>\<open>portfolios.length\<close>: a
  \<^verbatim>\<open>TypeError\<close> on \<^verbatim>\<open>null\<close>, and \<^verbatim>\<open>undefined\<close> (None) where the value has no such property.
  An array and a string have a length and no \<^verbatim>\<open>id\<close>; an object has what its own properties
  give it. (The length of a string counts its \<open>char\<close>s, which are the UTF-16 units of
  JavaScript for ASCII text.)
\<close>

fun prop_id :: "json \<Rightarrow> js_error + json option" where
  "prop_id JNull = Inl (null_property ''id'')"
| "prop_id (JObj ps) = Inr (map_of ps ''id'')"
| "prop_id v = Inr None"

fun prop_length :: "json \<Rightarrow> js_error + json option" where
  "prop_length JNull = Inl (null_property ''length'')"
| "prop_length (JObj ps) = Inr (map_of ps ''length'')"
| "prop_length (JArr xs) = Inr (Some (JNum (of_nat (length xs))))"
| "prop_length (JStr s) = Inr (Some (JNum (of_nat (length s))))"
| "prop_length v = Inr None"

subsection \<open>The array methods the handlers call\<close>

text \<open>Calling a method on a value that is not an array throws: no JSON value holds a function.\<close>

definition no_method :: "json \<Rightarrow> string \<Rightarrow> js_error" where
  "no_method v name =
     (if v = JNull then null_property name else not_a_function (''portfolios.'' @ name))"

fun push :: "json \<Rightarrow> json \<Rightarrow> js_error + json" where
  "push (JArr xs) x = Inr (JArr (xs @ [x]))"
| "push v x = Inl (no_method v ''push'')"

text \<open>\<^verbatim>\<open>portfolios.findIndex(portfolio => portfolio.id === id)\<close>, None for \<^verbatim>\<open>-1\<close>.\<close>

fun find_id :: "json list \<Rightarrow> string \<Rightarrow> js_error + nat option" where
  "find_id [] ident = Inr None"
| "find_id (portfolio # rest) ident =
     (case prop_id portfolio of
        Inl e \<Rightarrow> Inl e
      | Inr v \<Rightarrow>
          if v = Some (JStr ident) then Inr (Some 0)
          else (case find_id rest ident of
                  Inl e \<Rightarrow> Inl e
                | Inr None \<Rightarrow> Inr None
                | Inr (Some i) \<Rightarrow> Inr (Some (Suc i))))"

fun findIndex :: "json \<Rightarrow> string \<Rightarrow> js_error + nat option" where
  "findIndex (JArr xs) ident = find_id xs ident"
| "findIndex v ident = Inl (no_method v ''findIndex'')"

text \<open>\<^verbatim>\<open>portfolios.splice(i, 1)\<close>: the removed elements and the array that is left.\<close>

fun splice :: "json \<Rightarrow> nat \<Rightarrow> js_error + (json list \<times> json)" where
  "splice (JArr xs) i = Inr (take 1 (drop i xs), JArr (take i xs @ drop (Suc i) xs))"
| "splice v i = Inl (no_method v ''splice'')"

subsection \<open>The world: the data file, the runtime, and what a request meets\<close>

datatype fs_call = Access | ReadFile | WriteFile string

text \<open>\<^verbatim>\<open>DATA_FILE\<close>: its text (None when absent), and the file-system calls made so far.\<close>

record world =
  data_file :: "string option"
  fs_log :: "fs_call list"

text \<open>
  \<^verbatim>\<open>JSON.parse\<close> and \<^verbatim>\<open>JSON.stringify(_, null, 2)\<close> belong to the runtime and are parameters.
  On the values of a running program the first undoes the second; a theorem that needs
  this of a document says so of that document.
\<close>

record platform =
  JSON_parse :: "string \<Rightarrow> js_error + json"
  JSON_stringify :: "json \<Rightarrow> string"

text \<open>
  What one run meets outside the program: whether its \<^verbatim>\<open>fs.access\<close>, its read or its
  write is rejected (and what a rejected write leaves in the file), the value of
  \<^verbatim>\<open>uuidv4()\<close>, and the values of the two \<^verbatim>\<open>new Date().toISOString()\<close> calls, in the
  order of the calls.
\<close>

record env =
  access_fault :: "js_error option"
  read_fault :: "js_error option"
  write_fault :: "js_error option"
  write_torn :: "string option"
  uuid :: string
  now1 :: string
  now2 :: string

text \<open>A computation runs on the world and either throws or returns.\<close>

type_synonym 'a io = "world \<Rightarrow> (js_error + 'a) \<times> world"

definition io_return :: "'a \<Rightarrow> 'a io" where
  "io_return x w = (Inr x, w)"

definition io_throw :: "js_error \<Rightarrow> 'a io" where
  "io_throw e w = (Inl e, w)"

definition io_lift :: "js_error + 'a \<Rightarrow> 'a io" where
  "io_lift r w = (r, w)"

definition io_bind :: "'a io \<Rightarrow> ('a \<Rightarrow> 'b io) \<Rightarrow> 'b io" where
  "io_bind m f w = (case m w of (Inl e, w') \<Rightarrow> (Inl e, w') | (Inr x, w') \<Rightarrow> f x w')"

text \<open>\<^verbatim>\<open>try { m } catch (error) { h error }\<close>\<close>

definition io_catch :: "'a io \<Rightarrow> (js_error \<Rightarrow> 'a io) \<Rightarrow> 'a io" where
  "io_catch m h w = (case m w of (Inl e, w') \<Rightarrow> h e w' | (Inr x, w') \<Rightarrow> (Inr x, w'))"


definition readFile :: "env \<Rightarrow> string io" where
  "readFile env w =
     (let w' = w\<lparr>fs_log := fs_log w @ [ReadFile]\<rparr> in
      case read_fault env of
        Some e \<Rightarrow> (Inl e, w')
      | None \<Rightarrow> (case data_file w of None \<Rightarrow> (Inl ENOENT, w') | Some txt \<Rightarrow> (Inr txt, w')))"

definition writeFile :: "env \<Rightarrow> string \<Rightarrow> unit io" where
  "writeFile env txt w =
     (case write_fault env of
        Some e \<Rightarrow> (Inl e, w\<lparr>data_file := write_torn env, fs_log := fs_log w @ [WriteFile txt]\<rparr>)
      | None \<Rightarrow> (Inr (), w\<lparr>data_file := Some txt, fs_log := fs_log w @ [WriteFile txt]\<rparr>))"

subsection \<open>The record store\<close>


definition readPortfolios :: "platform \<Rightarrow> env \<Rightarrow> json io" where
  "readPortfolios P env =
     io_catch
       (io_bind (readFile env) (\<lambda>data. io_lift (JSON_parse P data)))
       (\<lambda>error. io_return (JArr []))"

definition writePortfolios :: "platform \<Rightarrow> env \<Rightarrow> json \<Rightarrow> unit io" where
  "writePortfolios P env portfolios =
     io_catch
       (writeFile env (JSON_stringify P portfolios))
       (\<lambda>error. io_throw error)"

subsection \<open>The handlers\<close>

record response =
  status :: nat
  body :: json

definition respond :: "nat \<Rightarrow> json \<Rightarrow> response io" where
  "respond code b = io_return \<lparr>status = code, body = b\<rparr>"

definition internal_error :: "js_error \<Rightarrow> response io" where
  "internal_error error =
     respond 500 (JObj [(''success'', JBool False),
                        (''message'', JStr ''Internal server error''),
                        (''error'', JStr (error_message error))])"

definition newPortfolio :: "env \<Rightarrow> json \<Rightarrow> json" where
  "newPortfolio env req_body =
     object_literal
       [Prop ''id'' (JStr (uuid env)),
        Spread req_body,
        Prop ''createdAt'' (JStr (now1 env)),
        Prop ''updatedAt'' (JStr (now2 env))]"

definition post_portfolios :: "platform \<Rightarrow> env \<Rightarrow> json \<Rightarrow> response io" where
  "post_portfolios P env req_body =
     io_catch
       (io_bind (readPortfolios P env) (\<lambda>portfolios.
        io_bind (io_lift (push portfolios (newPortfolio env req_body))) (\<lambda>portfolios'.
        io_bind (writePortfolios P env portfolios') (\<lambda>_.
        respond 201 (JObj [(''success'', JBool True),
                           (''message'', JStr ''Portfolio created successfully''),
                           (''data'', newPortfolio env req_body)])))))
       internal_error"

text \<open>A member whose value is \<^verbatim>\<open>undefined\<close> is left out of the document \<^verbatim>\<open>res.json\<close> sends.\<close>

fun optional :: "string \<Rightarrow> json option \<Rightarrow> (string \<times> json) list" where
  "optional k None = []"
| "optional k (Some v) = [(k, v)]"

definition get_portfolios :: "platform \<Rightarrow> env \<Rightarrow> response io" where
  "get_portfolios P env =
     io_catch
       (io_bind (readPortfolios P env) (\<lambda>portfolios.
        io_bind (io_lift (prop_length portfolios)) (\<lambda>n.
        respond 200 (JObj ([(''success'', JBool True),
                            (''message'', JStr ''Portfolios retrieved successfully''),
                            (''data'', portfolios)] @ optional ''count'' n)))))
       internal_error"

text \<open>\<^verbatim>\<open>xs[0]\<close>, which is \<^verbatim>\<open>undefined\<close> on an empty array.\<close>

fun first :: "json list \<Rightarrow> json option" where
  "first [] = None"
| "first (x # xs) = Some x"

definition delete_portfolio :: "platform \<Rightarrow> env \<Rightarrow> string \<Rightarrow> response io" where
  "delete_portfolio P env ident =
     io_catch
       (io_bind (readPortfolios P env) (\<lambda>portfolios.
        io_bind (io_lift (findIndex portfolios ident)) (\<lambda>portfolioIndex.
        (case portfolioIndex of
           None \<Rightarrow>
             respond 404 (JObj [(''success'', JBool False),
                                (''message'', JStr ''Portfolio not found'')])
         | Some i \<Rightarrow>
             io_bind (io_lift (splice portfolios i)) (\<lambda>(removed, portfolios').
             io_bind (writePortfolios P env portfolios') (\<lambda>_.
             respond 200 (JObj ([(''success'', JBool True),
                                 (''message'', JStr ''Portfolio deleted successfully'')]
                                @ optional ''data'' (first removed)))))))))
       internal_error"

subsection \<open>Routing\<close>

text \<open>
  A request, by the route it matches; the body of a create request is what
  \<^verbatim>\<open>express.json()\<close> left in \<^verbatim>\<open>req.body\<close>. (A request whose body that middleware rejects
  reaches no handler and is not represented.)
\<close>

datatype request =
    POST_portfolios json
  | GET_portfolios
  | DELETE_portfolio string
  | GET_root
  | Unmatched

definition get_root :: "response io" where
  "get_root =
     respond 200
       (JObj [(''message'', JStr ''Portfolio API Server''),
              (''version'', JStr ''1.0.0''),
              (''endpoints'',
                 JObj [(''POST /api/portfolios'', JStr ''Create a new portfolio''),
                       (''GET /api/portfolios'', JStr ''Get all portfolios''),
                       (''DELETE /api/portfolios/:id'', JStr ''Delete a portfolio by ID'')])])"

definition endpoint_not_found :: "response io" where
  "endpoint_not_found =
     respond 404 (JObj [(''success'', JBool False),
                        (''message'', JStr ''Endpoint not found'')])"

fun handle :: "platform \<Rightarrow> env \<Rightarrow> request \<Rightarrow> response io" where
  "handle P env (POST_portfolios req_body) = post_portfolios P env req_body"
| "handle P env GET_portfolios = get_portfolios P env"
| "handle P env (DELETE_portfolio ident) = delete_portfolio P env ident"
| "handle P env GET_root = get_root"
| "handle P env Unmatched = endpoint_not_found"

subsection \<open>The two libraries behind a new record\<close>




















subsection \<open>Vocabulary of the properties\<close>

text \<open>The test of the delete handler, \<^verbatim>\<open>portfolio.id === id\<close>, as a predicate on stored values.\<close>

fun id_matches :: "string \<Rightarrow> json \<Rightarrow> bool" where
  "id_matches ident (JObj ps) = (map_of ps ''id'' = Some (JStr ident))"
| "id_matches ident v = False"

text \<open>The value of an own property of a record, None where there is none.\<close>

fun field :: "json \<Rightarrow> string \<Rightarrow> json option" where
  "field (JObj ps) k = map_of ps k"
| "field v k = None"

definition record_id :: "json \<Rightarrow> json option" where
  "record_id r = field r ''id''"

definition unique_ids :: "json list \<Rightarrow> bool" where
  "unique_ids rs = distinct (map record_id rs)"






fun is_write :: "fs_call \<Rightarrow> bool" where
  "is_write (WriteFile txt) = True"
| "is_write c = False"

definition writes :: "world \<Rightarrow> fs_call list" where
  "writes w = filter is_write (fs_log w)"

subsection \<open>A sample runtime and sample runs\<close>

text \<open>
  The theorems below hold for every runtime. To run the handlers on concrete requests,
  \<open>sample\<close> gives the two JSON functions on a handful of documents, each with the text
  that \<^verbatim>\<open>JSON.stringify(_, null, 2)\<close> prints for it. A text parses to the first document
  listed with it; other texts do not parse.
\<close>

definition array_text :: "string list \<Rightarrow> string" where
  \<open>array_text items =
     (if items = [] then ''[]''
      else ''[\<newline>'' @ foldr (\<lambda>item rest. if rest = [] then item else item @ '',\<newline>'' @ rest) items []
           @ ''\<newline>]'')\<close>

definition site_A :: json where
  "site_A = JObj [(''id'', JStr ''1b9d6bcd-bbfd-4b2d-9b5d-ab8dfbbd4bed''),
                  (''title'', JStr ''My Site''),
                  (''createdAt'', JStr ''2024-05-01T09:30:00.000Z''),
                  (''updatedAt'', JStr ''2024-05-01T09:30:00.000Z'')]"

definition site_A_text :: string where
  \<open>site_A_text =
     ''  {\<newline>'' @
     ''    "id": "1b9d6bcd-bbfd-4b2d-9b5d-ab8dfbbd4bed",\<newline>'' @
     ''    "title": "My Site",\<newline>'' @
     ''    "createdAt": "2024-05-01T09:30:00.000Z",\<newline>'' @
     ''    "updatedAt": "2024-05-01T09:30:00.000Z"\<newline>'' @
     ''  }''\<close>

definition site_B :: json where
  "site_B = JObj [(''id'', JStr ''6ec0bd7f-11c0-43da-975e-2a8ad9ebae0b''),
                  (''title'', JStr ''Blog''),
                  (''createdAt'', JStr ''2024-05-01T09:31:00.000Z''),
                  (''updatedAt'', JStr ''2024-05-01T09:31:00.000Z'')]"

definition site_B_text :: string where
  \<open>site_B_text =
     ''  {\<newline>'' @
     ''    "id": "6ec0bd7f-11c0-43da-975e-2a8ad9ebae0b",\<newline>'' @
     ''    "title": "Blog",\<newline>'' @
     ''    "createdAt": "2024-05-01T09:31:00.000Z",\<newline>'' @
     ''    "updatedAt": "2024-05-01T09:31:00.000Z"\<newline>'' @
     ''  }''\<close>

text \<open>The records made from the body \<^verbatim>\<open>{"id": "my-own-id"}\<close>, sent twice.\<close>

definition own_1 :: json where
  "own_1 = JObj [(''id'', JStr ''my-own-id''),
                 (''createdAt'', JStr ''2024-05-01T09:30:00.000Z''),
                 (''updatedAt'', JStr ''2024-05-01T09:30:00.000Z'')]"

definition own_1_text :: string where
  \<open>own_1_text =
     ''  {\<newline>'' @
     ''    "id": "my-own-id",\<newline>'' @
     ''    "createdAt": "2024-05-01T09:30:00.000Z",\<newline>'' @
     ''    "updatedAt": "2024-05-01T09:30:00.000Z"\<newline>'' @
     ''  }''\<close>

definition own_2 :: json where
  "own_2 = JObj [(''id'', JStr ''my-own-id''),
                 (''createdAt'', JStr ''2024-05-01T09:31:00.000Z''),
                 (''updatedAt'', JStr ''2024-05-01T09:31:00.000Z'')]"

definition own_2_text :: string where
  \<open>own_2_text =
     ''  {\<newline>'' @
     ''    "id": "my-own-id",\<newline>'' @
     ''    "createdAt": "2024-05-01T09:31:00.000Z",\<newline>'' @
     ''    "updatedAt": "2024-05-01T09:31:00.000Z"\<newline>'' @
     ''  }''\<close>

text \<open>The record of a create during which the clock moved on by a millisecond.\<close>

definition site_T :: json where
  "site_T = JObj [(''id'', JStr ''1b9d6bcd-bbfd-4b2d-9b5d-ab8dfbbd4bed''),
                  (''title'', JStr ''My Site''),
                  (''createdAt'', JStr ''2024-05-01T09:30:00.999Z''),
                  (''updatedAt'', JStr ''2024-05-01T09:30:01.000Z'')]"

definition site_T_text :: string where
  \<open>site_T_text =
     ''  {\<newline>'' @
     ''    "id": "1b9d6bcd-bbfd-4b2d-9b5d-ab8dfbbd4bed",\<newline>'' @
     ''    "title": "My Site",\<newline>'' @
     ''    "createdAt": "2024-05-01T09:30:00.999Z",\<newline>'' @
     ''    "updatedAt": "2024-05-01T09:30:01.000Z"\<newline>'' @
     ''  }''\<close>

text \<open>
  The record made from the body \<^verbatim>\<open>{"views": 1e400}\<close>, which \<^verbatim>\<open>express.json()\<close> hands over with
  \<^verbatim>\<open>Infinity\<close> for the number. \<^verbatim>\<open>JSON.stringify\<close> prints \<^verbatim>\<open>null\<close> for a number that is not finite,
  and the text parses to the record with \<^verbatim>\<open>null\<close> in its place.
\<close>

definition big_1 :: json where
  "big_1 = JObj [(''id'', JStr ''1b9d6bcd-bbfd-4b2d-9b5d-ab8dfbbd4bed''),
                 (''views'', JInfinity True),
                 (''createdAt'', JStr ''2024-05-01T09:30:00.000Z''),
                 (''updatedAt'', JStr ''2024-05-01T09:30:00.000Z'')]"

definition big_null :: json where
  "big_null = JObj [(''id'', JStr ''1b9d6bcd-bbfd-4b2d-9b5d-ab8dfbbd4bed''),
                    (''views'', JNull),
                    (''createdAt'', JStr ''2024-05-01T09:30:00.000Z''),
                    (''updatedAt'', JStr ''2024-05-01T09:30:00.000Z'')]"

definition big_text :: string where
  \<open>big_text =
     ''  {\<newline>'' @
     ''    "id": "1b9d6bcd-bbfd-4b2d-9b5d-ab8dfbbd4bed",\<newline>'' @
     ''    "views": null,\<newline>'' @
     ''    "createdAt": "2024-05-01T09:30:00.000Z",\<newline>'' @
     ''    "updatedAt": "2024-05-01T09:30:00.000Z"\<newline>'' @
     ''  }''\<close>

definition sample_docs :: "(string \<times> json) list" where
  "sample_docs =
     [(array_text [], JArr []),
      (array_text [site_A_text], JArr [site_A]),
      (array_text [site_A_text, site_B_text], JArr [site_A, site_B]),
      (array_text [site_B_text], JArr [site_B]),
      (array_text [site_B_text, site_A_text], JArr [site_B, site_A]),
      (array_text [own_1_text], JArr [own_1]),
      (array_text [own_1_text, own_2_text], JArr [own_1, own_2]),
      (array_text [own_2_text], JArr [own_2]),
      (array_text [site_T_text], JArr [site_T]),
      (array_text [big_text], JArr [big_null]),
      (array_text [big_text], JArr [big_1])]"

definition sample_parse :: "string \<Rightarrow> js_error + json" where
  "sample_parse txt =
     (case map_of sample_docs txt of
        Some v \<Rightarrow> Inr v
      | None \<Rightarrow> Inl (JsError ''Unexpected token''))"

definition sample_stringify :: "json \<Rightarrow> string" where
  "sample_stringify v =
     (case find (\<lambda>doc. snd doc = v) sample_docs of
        Some doc \<Rightarrow> fst doc
      | None \<Rightarrow> ''null'')"

definition sample :: platform where
  "sample = \<lparr>JSON_parse = sample_parse, JSON_stringify = sample_stringify\<rparr>"

text \<open>What the two create requests of the sample runs meet: nothing fails.\<close>

definition env_A :: env where
  "env_A = \<lparr>access_fault = None, read_fault = None, write_fault = None, write_torn = None,
            uuid = ''1b9d6bcd-bbfd-4b2d-9b5d-ab8dfbbd4bed'',
            now1 = ''2024-05-01T09:30:00.000Z'', now2 = ''2024-05-01T09:30:00.000Z''\<rparr>"

definition env_B :: env where
  "env_B = \<lparr>access_fault = None, read_fault = None, write_fault = None, write_torn = None,
            uuid = ''6ec0bd7f-11c0-43da-975e-2a8ad9ebae0b'',
            now1 = ''2024-05-01T09:31:00.000Z'', now2 = ''2024-05-01T09:31:00.000Z''\<rparr>"


text \<open>As \<open>env_A\<close>, with the disk full: the write is rejected and leaves an empty file.\<close>

definition env_full :: env where
  "env_full = env_A\<lparr>write_fault := Some (JsError ''ENOSPC: no space left on device, write''),
                    write_torn := Some []\<rparr>"


text \<open>As \<open>env_A\<close>, with the read rejected.\<close>

definition env_unreadable :: env where
  "env_unreadable = env_A\<lparr>read_fault := Some (JsError ''EACCES: permission denied'')\<rparr>"

definition title_body :: "string \<Rightarrow> json" where
  "title_body t = JObj [(''title'', JStr t)]"






definition own_id_body :: json where
  "own_id_body = JObj [(''id'', JStr ''my-own-id'')]"

text \<open>The world with a given text in the data file, at the start of a process.\<close>

definition disk :: "string \<Rightarrow> world" where
  "disk txt = \<lparr>data_file = Some txt, fs_log = []\<rparr>"

subsection \<open>Running the combinators\<close>

lemmas io_defs = io_return_def io_throw_def io_lift_def io_bind_def io_catch_def
  respond_def internal_error_def

lemma readPortfolios_world:
  "snd (readPortfolios P env w) = w\<lparr>fs_log := fs_log w @ [ReadFile]\<rparr>"
  by (simp add: readPortfolios_def readFile_def io_defs Let_def split: option.splits sum.splits)

lemma readPortfolios_returns: "\<exists>v. fst (readPortfolios P env w) = Inr v"
  by (simp add: readPortfolios_def readFile_def io_defs Let_def split: option.splits sum.splits)

lemma readPortfolios_pair:
  "fst (readPortfolios P env w) = Inr v \<Longrightarrow>
   readPortfolios P env w = (Inr v, w\<lparr>fs_log := fs_log w @ [ReadFile]\<rparr>)"
  by (simp add: prod_eq_iff readPortfolios_world)

lemma readPortfolios_file:
  "read_fault env = None \<Longrightarrow> data_file w = Some txt \<Longrightarrow> JSON_parse P txt = Inr v \<Longrightarrow>
   fst (readPortfolios P env w) = Inr v"
  by (simp add: readPortfolios_def readFile_def io_defs Let_def)

lemma writePortfolios_ok:
  "write_fault env = None \<Longrightarrow>
   writePortfolios P env v w =
     (Inr (), w\<lparr>data_file := Some (JSON_stringify P v),
                fs_log := fs_log w @ [WriteFile (JSON_stringify P v)]\<rparr>)"
  by (simp add: writePortfolios_def writeFile_def io_defs)

lemma writePortfolios_rejected:
  "write_fault env = Some e \<Longrightarrow>
   writePortfolios P env v w =
     (Inl e, w\<lparr>data_file := write_torn env,
               fs_log := fs_log w @ [WriteFile (JSON_stringify P v)]\<rparr>)"
  by (simp add: writePortfolios_def writeFile_def io_defs)

subsection \<open>The handlers on a stored array\<close>

lemma post_portfolios_created:
  assumes "fst (readPortfolios P env w) = Inr (JArr rs)" and "write_fault env = None"
  shows "post_portfolios P env b w =
    (Inr \<lparr>status = 201,
          body = JObj [(''success'', JBool True),
                       (''message'', JStr ''Portfolio created successfully''),
                       (''data'', newPortfolio env b)]\<rparr>,
     w\<lparr>data_file := Some (JSON_stringify P (JArr (rs @ [newPortfolio env b]))),
       fs_log := fs_log w @ [ReadFile, WriteFile (JSON_stringify P (JArr (rs @ [newPortfolio env b])))]\<rparr>)"
  using assms
  by (simp add: post_portfolios_def readPortfolios_pair writePortfolios_ok io_defs)

lemma post_portfolios_rejected:
  assumes "fst (readPortfolios P env w) = Inr (JArr rs)" and "write_fault env = Some e"
  shows "fst (post_portfolios P env b w) =
    Inr \<lparr>status = 500,
         body = JObj [(''success'', JBool False),
                      (''message'', JStr ''Internal server error''),
                      (''error'', JStr (error_message e))]\<rparr>"
  using assms
  by (simp add: post_portfolios_def readPortfolios_pair writePortfolios_rejected io_defs)

lemma get_portfolios_listed:
  assumes "fst (readPortfolios P env w) = Inr (JArr rs)"
  shows "get_portfolios P env w =
    (Inr \<lparr>status = 200,
          body = JObj [(''success'', JBool True),
                       (''message'', JStr ''Portfolios retrieved successfully''),
                       (''data'', JArr rs),
                       (''count'', JNum (of_nat (length rs)))]\<rparr>,
     w\<lparr>fs_log := fs_log w @ [ReadFile]\<rparr>)"
  using assms
  by (simp add: get_portfolios_def readPortfolios_pair io_defs)

lemma get_portfolios_world:
  "snd (get_portfolios P env w) = w\<lparr>fs_log := fs_log w @ [ReadFile]\<rparr>"
proof -
  obtain v where v: "fst (readPortfolios P env w) = Inr v"
    using readPortfolios_returns by blast
  show ?thesis
    using readPortfolios_pair [OF v]
    by (cases "prop_length v") (simp_all add: get_portfolios_def io_defs)
qed

lemma find_id_none:
  "JNull \<notin> set rs \<Longrightarrow> \<forall>r\<in>set rs. \<not> id_matches ident r \<Longrightarrow> find_id rs ident = Inr None"
proof (induction rs)
  case Nil
  then show ?case by simp
next
  case (Cons r rs)
  then show ?case by (cases r) auto
qed

lemma find_id_first:
  "JNull \<notin> set pre \<Longrightarrow> \<forall>p\<in>set pre. \<not> id_matches ident p \<Longrightarrow> id_matches ident r \<Longrightarrow>
   find_id (pre @ r # post) ident = Inr (Some (length pre))"
proof (induction pre)
  case Nil
  then show ?case by (cases r) auto
next
  case (Cons p pre)
  then show ?case by (cases p) auto
qed

lemma delete_portfolio_missing:
  assumes "fst (readPortfolios P env w) = Inr (JArr rs)"
    and "JNull \<notin> set rs" and "\<forall>r\<in>set rs. \<not> id_matches ident r"
  shows "delete_portfolio P env ident w =
    (Inr \<lparr>status = 404,
          body = JObj [(''success'', JBool False), (''message'', JStr ''Portfolio not found'')]\<rparr>,
     w\<lparr>fs_log := fs_log w @ [ReadFile]\<rparr>)"
  using assms
  by (simp add: delete_portfolio_def readPortfolios_pair find_id_none io_defs)

lemma delete_portfolio_found:
  assumes "fst (readPortfolios P env w) = Inr (JArr (pre @ r # post))"
    and "JNull \<notin> set pre" and "\<forall>p\<in>set pre. \<not> id_matches ident p" and "id_matches ident r"
    and "write_fault env = None"
  shows "delete_portfolio P env ident w =
    (Inr \<lparr>status = 200,
          body = JObj [(''success'', JBool True),
                       (''message'', JStr ''Portfolio deleted successfully''),
                       (''data'', r)]\<rparr>,
     w\<lparr>data_file := Some (JSON_stringify P (JArr (pre @ post))),
       fs_log := fs_log w @ [ReadFile, WriteFile (JSON_stringify P (JArr (pre @ post)))]\<rparr>)"
  using assms
  by (simp add: delete_portfolio_def readPortfolios_pair find_id_first writePortfolios_ok io_defs)

lemma delete_portfolio_rejected:
  assumes "fst (readPortfolios P env w) = Inr (JArr (pre @ r # post))"
    and "JNull \<notin> set pre" and "\<forall>p\<in>set pre. \<not> id_matches ident p" and "id_matches ident r"
    and "write_fault env = Some e"
  shows "fst (delete_portfolio P env ident w) =
    Inr \<lparr>status = 500,
         body = JObj [(''success'', JBool False),
                      (''message'', JStr ''Internal server error''),
                      (''error'', JStr (error_message e))]\<rparr>"
  using assms
  by (simp add: delete_portfolio_def readPortfolios_pair find_id_first writePortfolios_rejected io_defs)

lemma first_match_split:
  assumes "\<exists>r\<in>set rs. id_matches ident r"
  shows "\<exists>pre r post. rs = pre @ r # post \<and> id_matches ident r \<and>
           (\<forall>p\<in>set pre. \<not> id_matches ident p)"
  using split_list_first_prop [OF assms] by blast



subsection \<open>The merge order of a new record\<close>

lemma map_of_replace_prop:
  "k \<in> set (map fst ps) \<Longrightarrow> map_of (replace_prop k v ps) = (map_of ps)(k \<mapsto> v)"
proof (induction ps)
  case Nil
  then show ?case by simp
next
  case (Cons p ps)
  obtain k' v' where p: "p = (k', v')" by (cases p)
  show ?case
  proof (cases "k' = k")
    case True
    then show ?thesis by (auto simp: p fun_eq_iff)
  next
    case False
    with Cons.prems p have "k \<in> set (map fst ps)" by auto
    then have "map_of (replace_prop k v ps) = (map_of ps)(k \<mapsto> v)" by (rule Cons.IH)
    with False show ?thesis by (auto simp: p fun_eq_iff)
  qed
qed

lemma map_of_insert_index:
  "k \<notin> set (map fst ps) \<Longrightarrow> map_of (insert_index i k v ps) = (map_of ps)(k \<mapsto> v)"
  by (induction ps) (auto split: option.splits)

lemma map_of_new_prop:
  "k \<notin> set (map fst ps) \<Longrightarrow> map_of (ps @ [(k, v)]) = (map_of ps)(k \<mapsto> v)"
  by (induction ps) auto

lemma map_of_set_prop: "map_of (set_prop k v ps) = (map_of ps)(k \<mapsto> v)"
proof (cases "k \<in> set (map fst ps)")
  case True
  then show ?thesis by (simp add: set_prop_def map_of_replace_prop)
next
  case False
  show ?thesis
  proof (cases "array_index k")
    case None
    with False show ?thesis
      by (simp add: set_prop_def map_of_new_prop del: map_of_append)
  next
    case (Some i)
    with False show ?thesis
      by (simp add: set_prop_def map_of_insert_index)
  qed
qed

text \<open>The keys of the sample records and of the envelope are no array indices.\<close>

lemmas prop_defs = set_prop_def array_index_def is_digit_def

lemma map_of_spread:
  "map_of (foldl (\<lambda>acc (k, v). set_prop k v acc) ps kvs) = map_of ps ++ map_of (rev kvs)"
proof (induction kvs arbitrary: ps)
  case Nil
  then show ?case by simp
next
  case (Cons kv kvs)
  obtain k v where kv: "kv = (k, v)" by (cases kv)
  show ?case
    by (simp add: kv Cons.IH map_of_set_prop map_add_def fun_eq_iff split: option.splits)
qed



lemma newPortfolio_id:
  "field (newPortfolio env b) ''id'' =
     Some (case map_of (rev (own_props b)) ''id'' of
             None \<Rightarrow> JStr (uuid env) | Some v \<Rightarrow> v)"
  by (simp add: newPortfolio_def object_literal_def map_of_set_prop map_of_spread map_add_def
      split: option.splits)

text \<open>
  The order of the keys: the indices of an array body come first, and so does an array index
  among the keys of an object body; a key such as \<^verbatim>\<open>01\<close> is no array index.
\<close>

lemma order_array_body:
  "newPortfolio env_A (JArr [JNull, JStr ''a'']) =
     JObj [(''0'', JNull), (''1'', JStr ''a''),
           (''id'', JStr ''1b9d6bcd-bbfd-4b2d-9b5d-ab8dfbbd4bed''),
           (''createdAt'', JStr ''2024-05-01T09:30:00.000Z''),
           (''updatedAt'', JStr ''2024-05-01T09:30:00.000Z'')]"
  by (simp add: newPortfolio_def object_literal_def prop_defs decimal_def digit_value_def env_A_def
      upt_rec [of 0] upt_rec [of 1] upt_rec [of 2])

lemma order_mixed_body:
  "newPortfolio env_A (JObj [(''2'', JNull), (''b'', JNull), (''01'', JNull)]) =
     JObj [(''2'', JNull),
           (''id'', JStr ''1b9d6bcd-bbfd-4b2d-9b5d-ab8dfbbd4bed''),
           (''b'', JNull), (''01'', JNull),
           (''createdAt'', JStr ''2024-05-01T09:30:00.000Z''),
           (''updatedAt'', JStr ''2024-05-01T09:30:00.000Z'')]"
  by (simp add: newPortfolio_def object_literal_def prop_defs decimal_def digit_value_def env_A_def)

lemma create_keeps_unique_ids:
  assumes "unique_ids rs" and "map_of (rev (own_props b)) ''id'' = None"
    and "Some (JStr (uuid env)) \<notin> record_id ` set rs"
  shows "unique_ids (rs @ [newPortfolio env b])"
  using assms by (simp add: unique_ids_def record_id_def newPortfolio_id)

lemma delete_keeps_unique_ids:
  assumes "unique_ids (pre @ r # post)"
  shows "unique_ids (pre @ post)"
  using assms by (simp add: unique_ids_def)

subsection \<open>The texts of the two libraries\<close>

















subsection \<open>The sample runtime on its documents\<close>

lemmas sample_texts = array_text_def site_A_text_def site_B_text_def own_1_text_def
  own_2_text_def site_T_text_def

lemmas sample_values = site_A_def site_B_def own_1_def own_2_def site_T_def

lemmas sample_defs = sample_def sample_parse_def sample_stringify_def sample_docs_def

lemma parse_empty: "JSON_parse sample (array_text []) = Inr (JArr [])"
  by (simp add: sample_defs sample_texts)

lemma parse_A: "JSON_parse sample (array_text [site_A_text]) = Inr (JArr [site_A])"
  by (simp add: sample_defs sample_texts)

lemma parse_AB:
  "JSON_parse sample (array_text [site_A_text, site_B_text]) = Inr (JArr [site_A, site_B])"
  by (simp add: sample_defs sample_texts)

lemma parse_own_1: "JSON_parse sample (array_text [own_1_text]) = Inr (JArr [own_1])"
  by (simp add: sample_defs sample_texts)

lemma parse_own_12:
  "JSON_parse sample (array_text [own_1_text, own_2_text]) = Inr (JArr [own_1, own_2])"
  by (simp add: sample_defs sample_texts)

lemma stringify_A: "JSON_stringify sample (JArr [site_A]) = array_text [site_A_text]"
  by (simp add: sample_defs sample_values)

lemma stringify_AB:
  "JSON_stringify sample (JArr [site_A, site_B]) = array_text [site_A_text, site_B_text]"
  by (simp add: sample_defs sample_values)


lemma stringify_own_1: "JSON_stringify sample (JArr [own_1]) = array_text [own_1_text]"
  by (simp add: sample_defs sample_values)

lemma stringify_own_12:
  "JSON_stringify sample (JArr [own_1, own_2]) = array_text [own_1_text, own_2_text]"
  by (simp add: sample_defs sample_values)

lemma stringify_own_2: "JSON_stringify sample (JArr [own_2]) = array_text [own_2_text]"
  by (simp add: sample_defs sample_values)

lemma new_site_A: "newPortfolio env_A (title_body ''My Site'') = site_A"
  by (simp add: newPortfolio_def object_literal_def prop_defs env_A_def title_body_def site_A_def)

lemma new_site_B: "newPortfolio env_B (title_body ''Blog'') = site_B"
  by (simp add: newPortfolio_def object_literal_def prop_defs env_B_def title_body_def site_B_def)


lemma new_own_1: "newPortfolio env_A own_id_body = own_1"
  by (simp add: newPortfolio_def object_literal_def prop_defs env_A_def own_id_body_def own_1_def)

lemma new_own_2: "newPortfolio env_B own_id_body = own_2"
  by (simp add: newPortfolio_def object_literal_def prop_defs env_B_def own_id_body_def own_2_def)











lemma read_disk:
  "read_fault env = None \<Longrightarrow> JSON_parse P txt = Inr v \<Longrightarrow>
   fst (readPortfolios P env (disk txt)) = Inr v"
  by (rule readPortfolios_file) (simp_all add: disk_def)

section \<open>The claims\<close>

text \<open>
  C1 (the code departs from it): generated fields are to win over fields of the same name
  in the payload. The literal of the handler is \<^verbatim>\<open>{id: uuidv4(), ...req.body, createdAt: ...,
  updatedAt: ...}\<close>: the two timestamps follow the spread and do win (\<open>newPortfolio_createdAt\<close>,
  \<open>newPortfolio_updatedAt\<close>), the id precedes it and loses (\<open>newPortfolio_id\<close>). Here is the
  create request with the body \<^verbatim>\<open>{"id": "my-own-id"}\<close> on the empty collection: the record
  returned and stored carries \<^verbatim>\<open>my-own-id\<close>, not the UUID that was generated for it.
\<close>

theorem payload_id_replaces_generated_id:
  "post_portfolios sample env_A own_id_body (disk (array_text [])) =
     (Inr \<lparr>status = 201,
           body = JObj [(''success'', JBool True),
                        (''message'', JStr ''Portfolio created successfully''),
                        (''data'', own_1)]\<rparr>,
      \<lparr>data_file = Some (array_text [own_1_text]),
        fs_log = [ReadFile, WriteFile (array_text [own_1_text])]\<rparr>) \<and>
   JSON_parse sample (array_text [own_1_text]) = Inr (JArr [own_1]) \<and>
   uuid env_A = ''1b9d6bcd-bbfd-4b2d-9b5d-ab8dfbbd4bed'' \<and>
   field own_1 ''id'' = Some (JStr ''my-own-id'')"
proof -
  have r0: "fst (readPortfolios sample env_A (disk (array_text []))) = Inr (JArr [])"
    by (rule read_disk [OF _ parse_empty]) (simp add: env_A_def)
  have wf: "write_fault env_A = None"
    by (simp add: env_A_def)
  have "post_portfolios sample env_A own_id_body (disk (array_text [])) =
     (Inr \<lparr>status = 201,
           body = JObj [(''success'', JBool True),
                        (''message'', JStr ''Portfolio created successfully''),
                        (''data'', own_1)]\<rparr>,
      \<lparr>data_file = Some (array_text [own_1_text]),
        fs_log = [ReadFile, WriteFile (array_text [own_1_text])]\<rparr>)"
    unfolding post_portfolios_created [OF r0 wf]
    by (simp add: new_own_1 stringify_own_1 disk_def)
  moreover have "uuid env_A = ''1b9d6bcd-bbfd-4b2d-9b5d-ab8dfbbd4bed''"
    by (simp add: env_A_def)
  moreover have "field own_1 ''id'' = Some (JStr ''my-own-id'')"
    by (simp add: own_1_def)
  ultimately show ?thesis
    using parse_own_1 by simp
qed

text \<open>
  C2 (the code departs from it): no two stored records are to share an id. The same create
  request sent twice to the empty collection, both times answered 201, leaves two records
  with the id \<^verbatim>\<open>my-own-id\<close>. What the handlers do keep: a create whose payload has no id and
  whose UUID is fresh (\<open>create_keeps_unique_ids\<close>) and every delete
  (\<open>delete_keeps_unique_ids\<close>) preserve the uniqueness of ids.
\<close>

theorem two_creates_share_an_id:
  "unique_ids [] \<and>
   fst (readPortfolios sample env_A (disk (array_text []))) = Inr (JArr []) \<and>
   status (projr (fst (post_portfolios sample env_A own_id_body (disk (array_text []))))) = 201 \<and>
   status (projr (fst (post_portfolios sample env_B own_id_body
     (snd (post_portfolios sample env_A own_id_body (disk (array_text []))))))) = 201 \<and>
   fst (readPortfolios sample env_A
     (snd (post_portfolios sample env_B own_id_body
       (snd (post_portfolios sample env_A own_id_body (disk (array_text []))))))) =
     Inr (JArr [own_1, own_2]) \<and>
   record_id own_1 = Some (JStr ''my-own-id'') \<and>
   record_id own_2 = Some (JStr ''my-own-id'') \<and>
   \<not> unique_ids [own_1, own_2]"
proof -
  have r0: "fst (readPortfolios sample env_A (disk (array_text []))) = Inr (JArr [])"
    by (rule read_disk [OF _ parse_empty]) (simp add: env_A_def)
  have wf: "write_fault env_A = None" "write_fault env_B = None"
    by (simp_all add: env_A_def env_B_def)
  have rf: "read_fault env_A = None" "read_fault env_B = None"
    by (simp_all add: env_A_def env_B_def)
  let ?w1 = "snd (post_portfolios sample env_A own_id_body (disk (array_text [])))"
  let ?w2 = "snd (post_portfolios sample env_B own_id_body ?w1)"
  have s1: "status (projr (fst (post_portfolios sample env_A own_id_body (disk (array_text []))))) = 201"
    by (simp add: post_portfolios_created [OF r0 wf(1)])
  have f1: "data_file ?w1 = Some (array_text [own_1_text])"
    by (simp add: post_portfolios_created [OF r0 wf(1)] new_own_1 stringify_own_1)
  have r1: "fst (readPortfolios sample env_B ?w1) = Inr (JArr [own_1])"
    using rf(2) f1 parse_own_1 by (rule readPortfolios_file)
  have s2: "status (projr (fst (post_portfolios sample env_B own_id_body ?w1))) = 201"
    by (simp add: post_portfolios_created [OF r1 wf(2)])
  have f2: "data_file ?w2 = Some (array_text [own_1_text, own_2_text])"
    by (simp add: post_portfolios_created [OF r1 wf(2)] new_own_2 stringify_own_12)
  have r2: "fst (readPortfolios sample env_A ?w2) = Inr (JArr [own_1, own_2])"
    using rf(1) f2 parse_own_12 by (rule readPortfolios_file)
  have ids: "record_id own_1 = Some (JStr ''my-own-id'')"
    "record_id own_2 = Some (JStr ''my-own-id'')"
    by (simp_all add: record_id_def own_1_def own_2_def)
  from r0 s1 s2 r2 ids show ?thesis
    by (simp add: unique_ids_def)
qed

text \<open>
  C3: when some record of the stored collection has the requested id, the delete handler
  removes the first such record and no other: the collection is \<open>pre @ r # post\<close> with no
  match in \<open>pre\<close>, the response is 200 with \<open>r\<close> as its data, and the text written to the
  data file is that of \<open>pre @ post\<close>, one record shorter, the others in their order. This
  is the run in which the write is accepted, on a collection of records: a \<^verbatim>\<open>null\<close>
  element would make the scan throw.
\<close>

theorem delete_removes_first_match:
  assumes "fst (readPortfolios P env w) = Inr (JArr rs)"
    and "JNull \<notin> set rs"
    and "\<exists>r\<in>set rs. id_matches ident r"
    and "write_fault env = None"
  shows "\<exists>pre r post.
           rs = pre @ r # post \<and> id_matches ident r \<and> (\<forall>p\<in>set pre. \<not> id_matches ident p) \<and>
           fst (delete_portfolio P env ident w) =
             Inr \<lparr>status = 200,
                  body = JObj [(''success'', JBool True),
                               (''message'', JStr ''Portfolio deleted successfully''),
                               (''data'', r)]\<rparr> \<and>
           data_file (snd (delete_portfolio P env ident w)) =
             Some (JSON_stringify P (JArr (pre @ post))) \<and>
           length (pre @ post) = length rs - 1"
proof -
  obtain pre r post where rs: "rs = pre @ r # post" and r: "id_matches ident r"
    and pre: "\<forall>p\<in>set pre. \<not> id_matches ident p"
    using first_match_split [OF assms(3)] by blast
  have null: "JNull \<notin> set pre"
    using assms(2) rs by simp
  have run: "delete_portfolio P env ident w =
    (Inr \<lparr>status = 200,
          body = JObj [(''success'', JBool True),
                       (''message'', JStr ''Portfolio deleted successfully''),
                       (''data'', r)]\<rparr>,
     w\<lparr>data_file := Some (JSON_stringify P (JArr (pre @ post))),
       fs_log := fs_log w @ [ReadFile, WriteFile (JSON_stringify P (JArr (pre @ post)))]\<rparr>)"
    using assms(1) null pre r assms(4) unfolding rs by (rule delete_portfolio_found)
  show ?thesis
    using rs r pre by (intro exI [of _ pre] exI [of _ r] exI [of _ post]) (simp add: run)
qed

text \<open>
  Two stored records carry the id \<^verbatim>\<open>my-own-id\<close>: the delete returns the first and leaves
  the second in the file.
\<close>

theorem delete_removes_first_match_witness:
  "fst (readPortfolios sample env_A (disk (array_text [own_1_text, own_2_text]))) =
     Inr (JArr [own_1, own_2]) \<and>
   JNull \<notin> set [own_1, own_2] \<and>
   (\<exists>r\<in>set [own_1, own_2]. id_matches ''my-own-id'' r) \<and>
   write_fault env_A = None \<and>
   fst (delete_portfolio sample env_A ''my-own-id'' (disk (array_text [own_1_text, own_2_text]))) =
     Inr \<lparr>status = 200,
          body = JObj [(''success'', JBool True),
                       (''message'', JStr ''Portfolio deleted successfully''),
                       (''data'', own_1)]\<rparr> \<and>
   data_file (snd (delete_portfolio sample env_A ''my-own-id''
       (disk (array_text [own_1_text, own_2_text])))) = Some (array_text [own_2_text])"
proof -
  have h1: "fst (readPortfolios sample env_A (disk (array_text [own_1_text, own_2_text]))) =
      Inr (JArr [own_1, own_2])"
    by (rule read_disk [OF _ parse_own_12]) (simp add: env_A_def)
  have h2: "JNull \<notin> set [own_1, own_2]"
    by (simp add: sample_values)
  have m: "id_matches ''my-own-id'' own_1"
    by (simp add: own_1_def)
  then have h3: "\<exists>r\<in>set [own_1, own_2]. id_matches ''my-own-id'' r"
    by simp
  have h4: "write_fault env_A = None"
    by (simp add: env_A_def)
  from delete_removes_first_match [OF h1 h2 h3 h4]
  obtain pre r post where split: "[own_1, own_2] = pre @ r # post"
    and pre: "\<forall>p\<in>set pre. \<not> id_matches ''my-own-id'' p"
    and resp: "fst (delete_portfolio sample env_A ''my-own-id''
        (disk (array_text [own_1_text, own_2_text]))) =
      Inr \<lparr>status = 200,
           body = JObj [(''success'', JBool True),
                        (''message'', JStr ''Portfolio deleted successfully''),
                        (''data'', r)]\<rparr>"
    and stored: "data_file (snd (delete_portfolio sample env_A ''my-own-id''
        (disk (array_text [own_1_text, own_2_text])))) =
      Some (JSON_stringify sample (JArr (pre @ post)))"
    by blast
  have "pre = []"
  proof (cases pre)
    case Nil
    then show ?thesis .
  next
    case (Cons p ps)
    with split have "p = own_1" by simp
    with pre Cons m show ?thesis by simp
  qed
  with split have "r = own_1" and "post = [own_2]" by simp_all
  with \<open>pre = []\<close> resp stored h1 h2 h3 h4 show ?thesis
    by (simp add: stringify_own_2)
qed

text \<open>
  C4: whatever the state of the data file and whatever the outcome of the read,
  \<open>readPortfolios\<close> returns and never raises; when \<^verbatim>\<open>fs.readFile\<close> is rejected (the file
  is absent, or the read fails for another reason) or \<^verbatim>\<open>JSON.parse\<close> throws on the text read,
  what it returns is the empty array.
\<close>

theorem readPortfolios_never_raises:
  "(\<exists>v. fst (readPortfolios P env w) = Inr v) \<and>
   ((\<exists>e. fst (readFile env w) = Inl e) \<longrightarrow> fst (readPortfolios P env w) = Inr (JArr [])) \<and>
   (\<forall>data. fst (readFile env w) = Inr data \<and> (\<exists>e. JSON_parse P data = Inl e) \<longrightarrow>
          fst (readPortfolios P env w) = Inr (JArr []))"
proof (intro conjI impI allI)
  show "\<exists>v. fst (readPortfolios P env w) = Inr v"
    by (rule readPortfolios_returns)
next
  assume "\<exists>e. fst (readFile env w) = Inl e"
  then obtain e where "fst (readFile env w) = Inl e" ..
  then show "fst (readPortfolios P env w) = Inr (JArr [])"
    by (cases "readFile env w") (simp add: readPortfolios_def io_defs)
next
  fix data
  assume "fst (readFile env w) = Inr data \<and> (\<exists>e. JSON_parse P data = Inl e)"
  then obtain e where "fst (readFile env w) = Inr data" and "JSON_parse P data = Inl e"
    by blast
  then show "fst (readPortfolios P env w) = Inr (JArr [])"
    by (cases "readFile env w") (simp add: readPortfolios_def io_defs)
qed

text \<open>
  The three failures on the sample runtime: a rejected read, an absent file, and a file
  whose text is not JSON.
\<close>

theorem readPortfolios_never_raises_witness:
  "fst (readFile env_unreadable (disk (array_text [site_A_text]))) =
     Inl (JsError ''EACCES: permission denied'') \<and>
   fst (readPortfolios sample env_unreadable (disk (array_text [site_A_text]))) = Inr (JArr []) \<and>
   fst (readFile env_A \<lparr>data_file = None, fs_log = []\<rparr>) = Inl ENOENT \<and>
   fst (readPortfolios sample env_A \<lparr>data_file = None, fs_log = []\<rparr>) = Inr (JArr []) \<and>
   fst (readFile env_A (disk ''<html>'')) = Inr ''<html>'' \<and>
   JSON_parse sample ''<html>'' = Inl (JsError ''Unexpected token'') \<and>
   fst (readPortfolios sample env_A (disk ''<html>'')) = Inr (JArr [])"
proof -
  have r1: "fst (readFile env_unreadable (disk (array_text [site_A_text]))) =
      Inl (JsError ''EACCES: permission denied'')"
    by (simp add: readFile_def env_unreadable_def env_A_def Let_def)
  have r2: "fst (readFile env_A \<lparr>data_file = None, fs_log = []\<rparr>) = Inl ENOENT"
    by (simp add: readFile_def env_A_def Let_def)
  have r3: "fst (readFile env_A (disk ''<html>'')) = Inr ''<html>''"
    by (simp add: readFile_def env_A_def disk_def Let_def)
  have p3: "JSON_parse sample ''<html>'' = Inl (JsError ''Unexpected token'')"
    by (simp add: sample_defs sample_texts)
  from r1 readPortfolios_never_raises [of sample env_unreadable "disk (array_text [site_A_text])"]
  have c1: "fst (readPortfolios sample env_unreadable (disk (array_text [site_A_text]))) =
      Inr (JArr [])"
    by blast
  from r2 readPortfolios_never_raises [of sample env_A "\<lparr>data_file = None, fs_log = []\<rparr>"]
  have c2: "fst (readPortfolios sample env_A \<lparr>data_file = None, fs_log = []\<rparr>) = Inr (JArr [])"
    by blast
  from r3 p3 readPortfolios_never_raises [of sample env_A "disk ''<html>''"]
  have c3: "fst (readPortfolios sample env_A (disk ''<html>'')) = Inr (JArr [])"
    by blast
  from r1 r2 r3 p3 c1 c2 c3 show ?thesis by blast
qed

text \<open>
  C5: a rejected write is not swallowed. \<open>writePortfolios\<close> raises the very error of
  \<^verbatim>\<open>fs.writeFile\<close>, and the handler in which it was called, create or delete, answers 500
  with \<^verbatim>\<open>{success: false, message: "Internal server error", error: <message of the error>}\<close>.
\<close>

theorem write_failure_is_reported:
  assumes "write_fault env = Some e"
  shows "fst (writePortfolios P env v w) = Inl e \<and>
    (\<forall>rs. fst (readPortfolios P env w) = Inr (JArr rs) \<longrightarrow>
       fst (post_portfolios P env b w) =
         Inr \<lparr>status = 500,
              body = JObj [(''success'', JBool False),
                           (''message'', JStr ''Internal server error''),
                           (''error'', JStr (error_message e))]\<rparr>) \<and>
    (\<forall>rs. fst (readPortfolios P env w) = Inr (JArr rs) \<and> JNull \<notin> set rs \<and>
          (\<exists>r\<in>set rs. id_matches ident r) \<longrightarrow>
       fst (delete_portfolio P env ident w) =
         Inr \<lparr>status = 500,
              body = JObj [(''success'', JBool False),
                           (''message'', JStr ''Internal server error''),
                           (''error'', JStr (error_message e))]\<rparr>)"
proof (intro conjI allI impI)
  show "fst (writePortfolios P env v w) = Inl e"
    by (simp add: writePortfolios_rejected [OF assms])
next
  fix rs
  assume "fst (readPortfolios P env w) = Inr (JArr rs)"
  then show "fst (post_portfolios P env b w) =
      Inr \<lparr>status = 500,
           body = JObj [(''success'', JBool False),
                        (''message'', JStr ''Internal server error''),
                        (''error'', JStr (error_message e))]\<rparr>"
    using assms by (rule post_portfolios_rejected)
next
  fix rs
  assume a: "fst (readPortfolios P env w) = Inr (JArr rs) \<and> JNull \<notin> set rs \<and>
      (\<exists>r\<in>set rs. id_matches ident r)"
  then obtain pre r post where rs: "rs = pre @ r # post" and r: "id_matches ident r"
    and pre: "\<forall>p\<in>set pre. \<not> id_matches ident p"
    using first_match_split [of rs ident] by blast
  from a rs have read: "fst (readPortfolios P env w) = Inr (JArr (pre @ r # post))"
    and null: "JNull \<notin> set pre"
    by simp_all
  from read null pre r assms
  show "fst (delete_portfolio P env ident w) =
      Inr \<lparr>status = 500,
           body = JObj [(''success'', JBool False),
                        (''message'', JStr ''Internal server error''),
                        (''error'', JStr (error_message e))]\<rparr>"
    by (rule delete_portfolio_rejected)
qed

text \<open>A save, a create and a delete that meet a full disk.\<close>

theorem write_failure_is_reported_witness:
  "write_fault env_full = Some (JsError ''ENOSPC: no space left on device, write'') \<and>
   fst (writePortfolios sample env_full (JArr [site_A])
       (disk (array_text [site_A_text, site_B_text]))) =
     Inl (JsError ''ENOSPC: no space left on device, write'') \<and>
   fst (readPortfolios sample env_full (disk (array_text [site_A_text, site_B_text]))) =
     Inr (JArr [site_A, site_B]) \<and>
   fst (post_portfolios sample env_full (title_body ''My Site'')
       (disk (array_text [site_A_text, site_B_text]))) =
     Inr \<lparr>status = 500,
          body = JObj [(''success'', JBool False),
                       (''message'', JStr ''Internal server error''),
                       (''error'', JStr ''ENOSPC: no space left on device, write'')]\<rparr> \<and>
   JNull \<notin> set [site_A, site_B] \<and>
   (\<exists>r\<in>set [site_A, site_B]. id_matches ''6ec0bd7f-11c0-43da-975e-2a8ad9ebae0b'' r) \<and>
   fst (delete_portfolio sample env_full ''6ec0bd7f-11c0-43da-975e-2a8ad9ebae0b''
       (disk (array_text [site_A_text, site_B_text]))) =
     Inr \<lparr>status = 500,
          body = JObj [(''success'', JBool False),
                       (''message'', JStr ''Internal server error''),
                       (''error'', JStr ''ENOSPC: no space left on device, write'')]\<rparr>"
proof -
  have h: "write_fault env_full = Some (JsError ''ENOSPC: no space left on device, write'')"
    by (simp add: env_full_def)
  have r: "fst (readPortfolios sample env_full (disk (array_text [site_A_text, site_B_text]))) =
      Inr (JArr [site_A, site_B])"
    by (rule read_disk [OF _ parse_AB]) (simp add: env_full_def env_A_def)
  have n: "JNull \<notin> set [site_A, site_B]"
    by (simp add: sample_values)
  have m: "\<exists>r\<in>set [site_A, site_B]. id_matches ''6ec0bd7f-11c0-43da-975e-2a8ad9ebae0b'' r"
    by (simp add: sample_values)
  note t = write_failure_is_reported [OF h,
      where P = sample and v = "JArr [site_A]"
        and w = "disk (array_text [site_A_text, site_B_text])"
        and b = "title_body ''My Site''"
        and ident = "''6ec0bd7f-11c0-43da-975e-2a8ad9ebae0b''"]
  from t have c1: "fst (writePortfolios sample env_full (JArr [site_A])
       (disk (array_text [site_A_text, site_B_text]))) =
      Inl (JsError ''ENOSPC: no space left on device, write'')"
    by blast
  from t r have c2: "fst (post_portfolios sample env_full (title_body ''My Site'')
       (disk (array_text [site_A_text, site_B_text]))) =
     Inr \<lparr>status = 500,
          body = JObj [(''success'', JBool False),
                       (''message'', JStr ''Internal server error''),
                       (''error'', JStr ''ENOSPC: no space left on device, write'')]\<rparr>"
    by simp
  from t r n m have c3: "fst (delete_portfolio sample env_full ''6ec0bd7f-11c0-43da-975e-2a8ad9ebae0b''
       (disk (array_text [site_A_text, site_B_text]))) =
     Inr \<lparr>status = 500,
          body = JObj [(''success'', JBool False),
                       (''message'', JStr ''Internal server error''),
                       (''error'', JStr ''ENOSPC: no space left on device, write'')]\<rparr>"
    by simp
  from h c1 r c2 n m c3 show ?thesis by blast
qed

text \<open>
  C6: when the stored collection holds no record whose id is the requested one, the delete
  handler answers 404 with the body \<^verbatim>\<open>{success: false, message: "Portfolio not found"}\<close>
  and writes nothing: the data file is the same after the request as before, and the only
  file-system call of the request is the read. (The elements of a collection are records;
  a \<^verbatim>\<open>null\<close> element would make the scan throw.)
\<close>

theorem delete_unknown_id_changes_nothing:
  assumes "fst (readPortfolios P env w) = Inr (JArr rs)"
    and "JNull \<notin> set rs"
    and "\<forall>r\<in>set rs. \<not> id_matches ident r"
  shows "fst (delete_portfolio P env ident w) =
           Inr \<lparr>status = 404,
                body = JObj [(''success'', JBool False),
                             (''message'', JStr ''Portfolio not found'')]\<rparr> \<and>
         data_file (snd (delete_portfolio P env ident w)) = data_file w \<and>
         fs_log (snd (delete_portfolio P env ident w)) = fs_log w @ [ReadFile] \<and>
         writes (snd (delete_portfolio P env ident w)) = writes w"
  by (simp add: delete_portfolio_missing [OF assms] writes_def)

text \<open>Deleting an id that neither of the two stored records carries.\<close>

theorem delete_unknown_id_changes_nothing_witness:
  "fst (readPortfolios sample env_A (disk (array_text [site_A_text, site_B_text]))) =
     Inr (JArr [site_A, site_B]) \<and>
   JNull \<notin> set [site_A, site_B] \<and>
   \<not> id_matches ''no-such-id'' site_A \<and> \<not> id_matches ''no-such-id'' site_B \<and>
   fst (delete_portfolio sample env_A ''no-such-id'' (disk (array_text [site_A_text, site_B_text]))) =
     Inr \<lparr>status = 404,
          body = JObj [(''success'', JBool False), (''message'', JStr ''Portfolio not found'')]\<rparr> \<and>
   data_file (snd (delete_portfolio sample env_A ''no-such-id''
       (disk (array_text [site_A_text, site_B_text])))) = Some (array_text [site_A_text, site_B_text]) \<and>
   fs_log (snd (delete_portfolio sample env_A ''no-such-id''
       (disk (array_text [site_A_text, site_B_text])))) = [ReadFile]"
proof -
  have h1: "fst (readPortfolios sample env_A (disk (array_text [site_A_text, site_B_text]))) =
      Inr (JArr [site_A, site_B])"
    by (rule read_disk [OF _ parse_AB]) (simp add: env_A_def)
  have h2: "JNull \<notin> set [site_A, site_B]"
    by (simp add: sample_values)
  have h3: "\<forall>r\<in>set [site_A, site_B]. \<not> id_matches ''no-such-id'' r"
    by (simp add: sample_values)
  from delete_unknown_id_changes_nothing [OF h1 h2 h3] h1 h2 h3
  show ?thesis by (simp add: disk_def)
qed




text \<open>
  C8: a create appends, and the order of creation is the order of the list. From an empty
  collection, a create of A followed by a create of B makes the list handler answer 200
  with the data \<open>[a, b]\<close>, the records of A and of B in that order, and the count 2. On any
  stored collection \<open>rs\<close> the text a create writes is that of \<open>rs\<close> with the new record at
  the end, and whenever the list handler answers with an array its count is the length of
  that array. The runs are those in which the reads and the writes are accepted and the
  runtime parses the two texts it printed back to the values printed.
\<close>

theorem creates_are_listed_in_order:
  assumes "data_file w = Some start" and "JSON_parse P start = Inr (JArr [])"
    and "read_fault env_a = None" and "write_fault env_a = None"
    and "read_fault env_b = None" and "write_fault env_b = None"
    and "read_fault env_l = None"
    and "a = newPortfolio env_a body_a" and "b = newPortfolio env_b body_b"
    and "JSON_parse P (JSON_stringify P (JArr [a])) = Inr (JArr [a])"
    and "JSON_parse P (JSON_stringify P (JArr [a, b])) = Inr (JArr [a, b])"
    and "w_a = snd (post_portfolios P env_a body_a w)"
    and "w_b = snd (post_portfolios P env_b body_b w_a)"
  shows "fst (get_portfolios P env_l w_b) =
           Inr \<lparr>status = 200,
                body = JObj [(''success'', JBool True),
                             (''message'', JStr ''Portfolios retrieved successfully''),
                             (''data'', JArr [a, b]),
                             (''count'', JNum 2)]\<rparr> \<and>
         (\<forall>env w rs body.
            fst (readPortfolios P env w) = Inr (JArr rs) \<and> write_fault env = None \<longrightarrow>
            data_file (snd (post_portfolios P env body w)) =
              Some (JSON_stringify P (JArr (rs @ [newPortfolio env body])))) \<and>
         (\<forall>env w rs.
            fst (readPortfolios P env w) = Inr (JArr rs) \<longrightarrow>
            fst (get_portfolios P env w) =
              Inr \<lparr>status = 200,
                   body = JObj [(''success'', JBool True),
                                (''message'', JStr ''Portfolios retrieved successfully''),
                                (''data'', JArr rs),
                                (''count'', JNum (of_nat (length rs)))]\<rparr>)"
proof (intro conjI allI impI)
  have r0: "fst (readPortfolios P env_a w) = Inr (JArr [])"
    using assms(3,1,2) by (rule readPortfolios_file)
  have "data_file w_a = Some (JSON_stringify P (JArr [a]))"
    by (simp add: assms(12) assms(8) post_portfolios_created [OF r0 assms(4)])
  with assms(5) have r1: "fst (readPortfolios P env_b w_a) = Inr (JArr [a])"
    using assms(10) by (rule readPortfolios_file)
  have "data_file w_b = Some (JSON_stringify P (JArr [a, b]))"
    by (simp add: assms(13) assms(9) post_portfolios_created [OF r1 assms(6)])
  with assms(7) have r2: "fst (readPortfolios P env_l w_b) = Inr (JArr [a, b])"
    using assms(11) by (rule readPortfolios_file)
  show "fst (get_portfolios P env_l w_b) =
      Inr \<lparr>status = 200,
           body = JObj [(''success'', JBool True),
                        (''message'', JStr ''Portfolios retrieved successfully''),
                        (''data'', JArr [a, b]),
                        (''count'', JNum 2)]\<rparr>"
    by (simp add: get_portfolios_listed [OF r2])
next
  fix env w rs body
  assume "fst (readPortfolios P env w) = Inr (JArr rs) \<and> write_fault env = None"
  then show "data_file (snd (post_portfolios P env body w)) =
      Some (JSON_stringify P (JArr (rs @ [newPortfolio env body])))"
    by (simp add: post_portfolios_created)
next
  fix env w rs
  assume "fst (readPortfolios P env w) = Inr (JArr rs)"
  then show "fst (get_portfolios P env w) =
      Inr \<lparr>status = 200,
           body = JObj [(''success'', JBool True),
                        (''message'', JStr ''Portfolios retrieved successfully''),
                        (''data'', JArr rs),
                        (''count'', JNum (of_nat (length rs)))]\<rparr>"
    by (simp add: get_portfolios_listed)
qed

text \<open>
  \<^verbatim>\<open>My Site\<close> and then \<^verbatim>\<open>Blog\<close> are created on the empty file and listed; the file after the
  first create, and the list of a file of two records.
\<close>

theorem creates_are_listed_in_order_witness:
  "fst (get_portfolios sample env_A
     (snd (post_portfolios sample env_B (title_body ''Blog'')
       (snd (post_portfolios sample env_A (title_body ''My Site'') (disk (array_text []))))))) =
     Inr \<lparr>status = 200,
          body = JObj [(''success'', JBool True),
                       (''message'', JStr ''Portfolios retrieved successfully''),
                       (''data'', JArr [site_A, site_B]),
                       (''count'', JNum 2)]\<rparr> \<and>
   data_file (snd (post_portfolios sample env_A (title_body ''My Site'') (disk (array_text [])))) =
     Some (array_text [site_A_text]) \<and>
   fst (get_portfolios sample env_B (disk (array_text [site_A_text, site_B_text]))) =
     Inr \<lparr>status = 200,
          body = JObj [(''success'', JBool True),
                       (''message'', JStr ''Portfolios retrieved successfully''),
                       (''data'', JArr [site_A, site_B]),
                       (''count'', JNum 2)]\<rparr>"
proof -
  have s0: "data_file (disk (array_text [])) = Some (array_text [])"
    by (simp add: disk_def)
  have io: "read_fault env_A = None" "write_fault env_A = None"
    "read_fault env_B = None" "write_fault env_B = None"
    by (simp_all add: env_A_def env_B_def)
  have c1: "JSON_parse sample (JSON_stringify sample (JArr [newPortfolio env_A (title_body ''My Site'')])) =
      Inr (JArr [newPortfolio env_A (title_body ''My Site'')])"
    by (simp add: new_site_A stringify_A parse_A)
  have c2: "JSON_parse sample (JSON_stringify sample
        (JArr [newPortfolio env_A (title_body ''My Site''), newPortfolio env_B (title_body ''Blog'')])) =
      Inr (JArr [newPortfolio env_A (title_body ''My Site''), newPortfolio env_B (title_body ''Blog'')])"
    by (simp add: new_site_A new_site_B stringify_AB parse_AB)
  note t = creates_are_listed_in_order
    [OF s0 parse_empty io(1) io(2) io(3) io(4) io(1) refl refl c1 c2 refl refl]
  have r0: "fst (readPortfolios sample env_A (disk (array_text []))) = Inr (JArr [])"
    by (rule read_disk [OF io(1) parse_empty])
  have r2: "fst (readPortfolios sample env_B (disk (array_text [site_A_text, site_B_text]))) =
      Inr (JArr [site_A, site_B])"
    by (rule read_disk [OF io(3) parse_AB])
  from t have "fst (get_portfolios sample env_A
     (snd (post_portfolios sample env_B (title_body ''Blog'')
       (snd (post_portfolios sample env_A (title_body ''My Site'') (disk (array_text []))))))) =
     Inr \<lparr>status = 200,
          body = JObj [(''success'', JBool True),
                       (''message'', JStr ''Portfolios retrieved successfully''),
                       (''data'', JArr [site_A, site_B]),
                       (''count'', JNum 2)]\<rparr>"
    by (simp add: new_site_A new_site_B)
  moreover from t r0 io(2)
  have "data_file (snd (post_portfolios sample env_A (title_body ''My Site'') (disk (array_text [])))) =
     Some (JSON_stringify sample (JArr ([] @ [newPortfolio env_A (title_body ''My Site'')])))"
    by blast
  then have "data_file (snd (post_portfolios sample env_A (title_body ''My Site'') (disk (array_text [])))) =
     Some (array_text [site_A_text])"
    by (simp add: new_site_A stringify_A)
  moreover from t r2
  have "fst (get_portfolios sample env_B (disk (array_text [site_A_text, site_B_text]))) =
     Inr \<lparr>status = 200,
          body = JObj [(''success'', JBool True),
                       (''message'', JStr ''Portfolios retrieved successfully''),
                       (''data'', JArr [site_A, site_B]),
                       (''count'', JNum (of_nat (length [site_A, site_B])))]\<rparr>"
    by blast
  ultimately show ?thesis by simp
qed




text \<open>
  C10: the list handler is read-only. Whatever the data file holds and whatever the
  response, handling \<^verbatim>\<open>GET /api/portfolios\<close> makes one file-system call, the read, and
  leaves the file as it was; and a request that is neither a create nor a delete never
  writes the file.
\<close>

theorem list_never_writes:
  "snd (get_portfolios P env w) = w\<lparr>fs_log := fs_log w @ [ReadFile]\<rparr> \<and>
   data_file (snd (get_portfolios P env w)) = data_file w \<and>
   writes (snd (get_portfolios P env w)) = writes w \<and>
   (\<forall>req. (\<forall>b. req \<noteq> POST_portfolios b) \<and> (\<forall>i. req \<noteq> DELETE_portfolio i) \<longrightarrow>
      data_file (snd (handle P env req w)) = data_file w \<and>
      writes (snd (handle P env req w)) = writes w)"
proof -
  have g: "snd (get_portfolios P env w) = w\<lparr>fs_log := fs_log w @ [ReadFile]\<rparr>"
    by (rule get_portfolios_world)
  have "data_file (snd (handle P env req w)) = data_file w \<and>
        writes (snd (handle P env req w)) = writes w"
    if "\<forall>b. req \<noteq> POST_portfolios b" and "\<forall>i. req \<noteq> DELETE_portfolio i" for req
    using that
    by (cases req) (simp_all add: g writes_def get_root_def endpoint_not_found_def io_defs)
  then show ?thesis
    by (simp add: g writes_def)
qed

text \<open>Listing a file of two records, and asking for the root document.\<close>

theorem list_never_writes_witness:
  "snd (get_portfolios sample env_A (disk (array_text [site_A_text, site_B_text]))) =
     \<lparr>data_file = Some (array_text [site_A_text, site_B_text]), fs_log = [ReadFile]\<rparr> \<and>
   writes (snd (handle sample env_A GET_portfolios (disk (array_text [site_A_text, site_B_text])))) = [] \<and>
   snd (handle sample env_A GET_root (disk (array_text [site_A_text, site_B_text]))) =
     disk (array_text [site_A_text, site_B_text])"
  using list_never_writes [of sample env_A "disk (array_text [site_A_text, site_B_text])"]
  by (simp add: disk_def writes_def get_root_def io_defs)

end
